theory Spec2Isabelle
  imports Main "HOL-Library.AList"
begin

section \<open>JavaScript values\<close>

text \<open>
  The handlers of \<^verbatim>\<open>server.js\<close> work on untyped data: the request body, the identity kept
  in the session and the strings loaded from \<^verbatim>\<open>strings.yml\<close> are JSON-like values. An object
  is an association list with distinct keys, in the order in which JavaScript enumerates its
  properties. Numbers are restricted to integers.
\<close>

datatype json =
    JUndefined
  | JNull
  | JBool bool
  | JNum int
  | JStr string
  | JArr "json list"
  | JObj "(string \<times> json) list"

datatype js_error = TypeError

text \<open>What \<^verbatim>\<open>if (v)\<close>, \<^verbatim>\<open>!v\<close>, \<^verbatim>\<open>a && b\<close> and \<^verbatim>\<open>c ? x : y\<close> test.\<close>

fun truthy :: "json \<Rightarrow> bool" where
  "truthy JUndefined = False"
| "truthy JNull = False"
| "truthy (JBool b) = b"
| "truthy (JNum n) = (n \<noteq> 0)"
| "truthy (JStr s) = (s \<noteq> [])"
| "truthy (JArr xs) = True"
| "truthy (JObj ps) = True"

text \<open>
  \<^verbatim>\<open>v.k\<close> for the property names read in \<^verbatim>\<open>server.js\<close> (\<^verbatim>\<open>kind\<close>, \<^verbatim>\<open>displayName\<close>,
  \<^verbatim>\<open>emails\<close>, \<^verbatim>\<open>value\<close>, \<^verbatim>\<open>url\<close>, \<^verbatim>\<open>comments\<close>, \<^verbatim>\<open>apply\<close>, \<^verbatim>\<open>form\<close>, ...): none of them
  is a built-in property of arrays, strings, numbers or booleans, so only an object can
  answer with something other than \<^verbatim>\<open>undefined\<close>. Reading a property of \<^verbatim>\<open>undefined\<close> or
  \<^verbatim>\<open>null\<close> throws.
\<close>

fun js_get :: "json \<Rightarrow> string \<Rightarrow> js_error + json" where
  "js_get JUndefined k = Inl TypeError"
| "js_get JNull k = Inl TypeError"
| "js_get (JObj ps) k = Inr (case map_of ps k of None \<Rightarrow> JUndefined | Some v \<Rightarrow> v)"
| "js_get v k = Inr JUndefined"

text \<open>\<^verbatim>\<open>v[0]\<close>: the first element of an array, the first character of a string.\<close>

fun js_index0 :: "json \<Rightarrow> js_error + json" where
  "js_index0 JUndefined = Inl TypeError"
| "js_index0 JNull = Inl TypeError"
| "js_index0 (JArr []) = Inr JUndefined"
| "js_index0 (JArr (x # xs)) = Inr x"
| "js_index0 (JStr []) = Inr JUndefined"
| "js_index0 (JStr (c # cs)) = Inr (JStr [c])"
| "js_index0 (JObj ps) = Inr (case map_of ps ''0'' of None \<Rightarrow> JUndefined | Some v \<Rightarrow> v)"
| "js_index0 v = Inr JUndefined"

definition js_then :: "js_error + 'a \<Rightarrow> ('a \<Rightarrow> js_error + 'b) \<Rightarrow> js_error + 'b" where
  "js_then r f = (case r of Inl e \<Rightarrow> Inl e | Inr v \<Rightarrow> f v)"

text \<open>
  \<^verbatim>\<open>typeof v === "object" && v !== null\<close>, the test the \<^verbatim>\<open>dotty\<close> package makes before each
  step of a path.
\<close>

fun is_object :: "json \<Rightarrow> bool" where
  "is_object (JObj ps) = True"
| "is_object (JArr xs) = True"
| "is_object v = False"

text \<open>
  \<^verbatim>\<open>dotty.get(object, "a.b")\<close> with the path already split at the dots: it never throws and
  answers \<^verbatim>\<open>undefined\<close> as soon as a step is not an object.
\<close>

fun dotty_get :: "json \<Rightarrow> string list \<Rightarrow> json" where
  "dotty_get v [] = JUndefined"
| "dotty_get v (k # ks) =
     (if is_object v
      then (case js_get v k of
              Inl e \<Rightarrow> JUndefined
            | Inr w \<Rightarrow> (if ks = [] then w else dotty_get w ks))
      else JUndefined)"

subsection \<open>Conversion to a string\<close>

text \<open>Decimal digits of a number, as \<^verbatim>\<open>String(n)\<close> prints an index or an integer.\<close>

definition digit_char :: "nat \<Rightarrow> char" where
  "digit_char d = char_of (of_char CHR ''0'' + d)"

fun string_of_nat :: "nat \<Rightarrow> string" where
  "string_of_nat n =
     (if 10 \<le> n then string_of_nat (n div 10) @ [digit_char (n mod 10)] else [digit_char n])"

declare string_of_nat.simps [simp del]

definition string_of_int :: "int \<Rightarrow> string" where
  "string_of_int i = (if i < 0 then CHR ''-'' # string_of_nat (nat (- i)) else string_of_nat (nat i))"

fun join :: "string \<Rightarrow> string list \<Rightarrow> string" where
  "join sep [] = []"
| "join sep [x] = x"
| "join sep (x # y # ys) = x @ sep @ join sep (y # ys)"

text \<open>
  What \<^verbatim>\<open>'' + v\<close> gives: an array is joined with commas, \<^verbatim>\<open>null\<close> and \<^verbatim>\<open>undefined\<close> inside it
  printing as nothing; a plain object prints as \<^verbatim>\<open>[object Object]\<close>.
\<close>

fun js_to_string :: "json \<Rightarrow> string" where
  "js_to_string JUndefined = ''undefined''"
| "js_to_string JNull = ''null''"
| "js_to_string (JBool b) = (if b then ''true'' else ''false'')"
| "js_to_string (JNum n) = string_of_int n"
| "js_to_string (JStr s) = s"
| "js_to_string (JArr xs) =
     join '','' (map (\<lambda>x. if x = JUndefined \<or> x = JNull then [] else js_to_string x) xs)"
| "js_to_string (JObj ps) = ''[object Object]''"

subsection \<open>Objects\<close>

text \<open>
  The own enumerable properties that \<^verbatim>\<open>lodash\<close> copies from a source: those of an object,
  the indexed elements of an array, the indexed characters of a string, nothing otherwise.
\<close>

fun own_props :: "json \<Rightarrow> (string \<times> json) list" where
  "own_props (JObj ps) = ps"
| "own_props (JArr xs) = zip (map string_of_nat [0..<length xs]) xs"
| "own_props (JStr s) = zip (map string_of_nat [0..<length s]) (map (\<lambda>c. JStr [c]) s)"
| "own_props v = []"

text \<open>
  \<^verbatim>\<open>_.assign(target, source)\<close>: a property that the target has keeps its place and takes the
  new value, a new one is added at the end.
\<close>

definition js_assign :: "(string \<times> json) list \<Rightarrow> json \<Rightarrow> (string \<times> json) list" where
  "js_assign target source = fold (\<lambda>(k, v). AList.update k v) (own_props source) target"

text \<open>
  \<^verbatim>\<open>obj.k = v\<close> in strict mode, with the object returned as updated. Assigning to a property
  of \<^verbatim>\<open>undefined\<close>, \<^verbatim>\<open>null\<close> or a primitive value throws. A named property assigned to an
  array is not one of its elements and is not kept by this model.
\<close>

fun js_put :: "json \<Rightarrow> string \<Rightarrow> json \<Rightarrow> js_error + json" where
  "js_put (JObj ps) k v = Inr (JObj (AList.update k v ps))"
| "js_put (JArr xs) k v = Inr (JArr xs)"
| "js_put obj k v = Inl TypeError"

text \<open>
  \<^verbatim>\<open>obj.a.b.k = v\<close>: the path is read down to the last object, which is assigned to. Only an
  object has the properties of the path, so only an object is rebuilt on the way back.
\<close>

fun js_update :: "string list \<Rightarrow> json \<Rightarrow> json \<Rightarrow> js_error + json" where
  "js_update [] v obj = Inr v"
| "js_update [k] v obj = js_put obj k v"
| "js_update (k # ks) v obj =
     js_then (js_get obj k) (\<lambda>child.
     js_then (js_update ks v child) (\<lambda>child'. js_put obj k child'))"

subsection \<open>Title case\<close>

text \<open>
  \<^verbatim>\<open>changeCase.title\<close> of the \<^verbatim>\<open>change-case\<close> package. The package first brings the text
  to lower-case words separated by single spaces: a space is put between a lower-case
  letter or digit and the upper-case letter after it (\<^verbatim>\<open>camelCase\<close>), and before the last
  upper-case letter of a run that a lower-case letter follows (\<^verbatim>\<open>CAMELCase\<close>); every run
  of other characters becomes one space, or nothing at either end; all letters are lowered.
  Then the first letter of each word is raised.

  The releases of the package agree on this for names made of ASCII letters and ASCII
  separators in which no capital letter is followed by a capital and then a small letter
  (\<open>plain_name\<close> below). For digits and for such runs of capitals the releases split
  differently, and for characters outside ASCII they use the Unicode classes of letters;
  there the definition follows release 3 on ASCII text, and nothing is stated about the
  titles of such names.
\<close>

definition is_upper :: "char \<Rightarrow> bool" where
  "is_upper c = (65 \<le> (of_char c :: nat) \<and> (of_char c :: nat) \<le> 90)"

definition is_lower :: "char \<Rightarrow> bool" where
  "is_lower c = (97 \<le> (of_char c :: nat) \<and> (of_char c :: nat) \<le> 122)"

definition is_digit :: "char \<Rightarrow> bool" where
  "is_digit c = (48 \<le> (of_char c :: nat) \<and> (of_char c :: nat) \<le> 57)"

definition lower_char :: "char \<Rightarrow> char" where
  "lower_char c = (if is_upper c then char_of ((of_char c :: nat) + 32) else c)"

definition upper_char :: "char \<Rightarrow> char" where
  "upper_char c = (if is_lower c then char_of ((of_char c :: nat) - 32) else c)"

fun camel_split :: "string \<Rightarrow> string" where
  "camel_split (a # b # cs) =
     (if (is_lower a \<or> is_digit a) \<and> is_upper b
      then a # CHR '' '' # camel_split (b # cs)
      else a # camel_split (b # cs))"
| "camel_split cs = cs"

fun camel_upper_split :: "string \<Rightarrow> string" where
  "camel_upper_split (a # b # c # cs) =
     (if is_upper a \<and> is_upper b \<and> is_lower c
      then a # CHR '' '' # camel_upper_split (b # c # cs)
      else a # camel_upper_split (b # c # cs))"
| "camel_upper_split cs = cs"

text \<open>The maximal runs of letters and digits; \<open>w\<close> is the run being read.\<close>

fun word_runs :: "string \<Rightarrow> string \<Rightarrow> string list" where
  "word_runs w [] = (if w = [] then [] else [w])"
| "word_runs w (c # cs) =
     (if is_upper c \<or> is_lower c \<or> is_digit c
      then word_runs (w @ [c]) cs
      else (if w = [] then [] else [w]) @ word_runs [] cs)"

definition no_case_words :: "string \<Rightarrow> string list" where
  "no_case_words s = map (map lower_char) (word_runs [] (camel_upper_split (camel_split s)))"

fun upper_first :: "string \<Rightarrow> string" where
  "upper_first [] = []"
| "upper_first (c # cs) = upper_char c # cs"

definition changeCase_title :: "string \<Rightarrow> string" where
  "changeCase_title s = join '' '' (map upper_first (no_case_words s))"

subsection \<open>The title-cased form of a name\<close>









subsection \<open>The order of the properties of an object\<close>





section \<open>Requests, responses and what a handler does\<close>

datatype response =
    SendStatus nat
  | Redirect string
  | Render string json
  | Send nat string

text \<open>
  The session of a request, as \<^verbatim>\<open>express-session\<close> hands it to the handlers: it holds at most
  one identity, \<^verbatim>\<open>req.session.user\<close>.
\<close>

record session =
  user :: "json option"

text \<open>\<^verbatim>\<open>dotty.get(req, 'session.user')\<close>\<close>

definition session_user :: "session \<Rightarrow> json" where
  "session_user s = (case user s of None \<Rightarrow> JUndefined | Some u \<Rightarrow> u)"

text \<open>An uploaded file as \<^verbatim>\<open>multer\<close> describes it: \<^verbatim>\<open>fieldname\<close>, \<^verbatim>\<open>originalname\<close>, the name
  of the file on the client, \<^verbatim>\<open>name\<close>, the name under which \<^verbatim>\<open>multer\<close> has stored the upload
  (it makes up a new one for each upload), and \<^verbatim>\<open>path\<close>, the temporary path.
  \<^verbatim>\<open>server.js\<close> reads \<^verbatim>\<open>fieldname\<close>, \<^verbatim>\<open>name\<close> and \<^verbatim>\<open>path\<close>. The second record is the same
  after the relocation loop of \<^verbatim>\<open>POST /apply\<close> has assigned \<^verbatim>\<open>dest\<close> and \<^verbatim>\<open>uri\<close> to it.\<close>

record upload =
  fieldname :: string
  originalname :: string
  name :: string
  path :: string

record relocated = upload +
  dest :: string
  uri :: string

text \<open>
  A request: \<^verbatim>\<open>req.protocol\<close>, \<^verbatim>\<open>req.get('host')\<close> (absent when the client sent no Host
  header), the session, \<^verbatim>\<open>req.body\<close> (an object, \<^verbatim>\<open>{}\<close> when nothing was parsed) and
  \<^verbatim>\<open>req.files\<close> (an object from field name to file, one file for each field name). Both
  objects are lists of their properties in the order of enumeration.
\<close>

record request =
  protocol :: string
  host :: "string option"
  sess :: session
  body :: "(string \<times> json) list"
  files :: "(string \<times> upload) list"

text \<open>What is written to the console: the arguments of \<^verbatim>\<open>console.log\<close>, an error reported
  by move number \<open>i\<close>, the stack of a thrown error.\<close>

datatype logged =
    Format string "json list"
  | MoveError nat
  | Stack js_error
  | DeliveryError

text \<open>The chat message of \<^verbatim>\<open>POST /apply\<close>.\<close>

record slack_field =
  title :: string
  "value" :: json
  short :: bool

record attachment =
  fallback :: string
  author_name :: json
  author_link :: json
  author_icon :: json
  color :: string
  pretext :: string
  "text" :: json
  fields' :: "slack_field list"

record message =
  channel :: "string option"
  username :: string
  icon_url :: string
  attachments :: "attachment list"

text \<open>
  The observable steps of handling a request, in the order in which they happen: console
  output, a response sent to the client, a file move started (\<^verbatim>\<open>mv(tmpPath, dest, cb)\<close>),
  the report of move number \<open>i\<close> (\<open>True\<close> when it reports an error), the call of the chat
  webhook, and an error thrown where no handler of the framework catches it.
\<close>

datatype action =
    ConsoleLog logged
  | ConsoleError logged
  | Respond response
  | MvStart string string
  | MvReport nat bool
  | Slack message
  | Uncaught js_error

section \<open>POST /signin\<close>

text \<open>
  \<^verbatim>\<open>
  var user = dotty.get(req, 'body.user');
  if (user && user.kind === 'plus#person') {
    console.log('User "%s" logged in', user.displayName);
    req.session.user = user;
    res.sendStatus(200).end();
  } else {
    res.sendStatus(401).end();
  }
  \<close>
  A truthy value never throws when a property is read, so the handler cannot throw.
\<close>

definition post_signin :: "request \<Rightarrow> session \<times> (js_error + action list)" where
  \<open>post_signin req =
     (let u = dotty_get (JObj (body req)) [''user''] in
      if truthy u \<and> js_get u ''kind'' = Inr (JStr ''plus#person'')
      then (case js_get u ''displayName'' of
              Inl e \<Rightarrow> (sess req, Inl e)
            | Inr dn \<Rightarrow>
                ((sess req)\<lparr>user := Some u\<rparr>,
                 Inr [ConsoleLog (Format ''User "%s" logged in'' [dn]), Respond (SendStatus 200)]))
      else (sess req, Inr [Respond (SendStatus 401)]))\<close>

section \<open>Startup\<close>

text \<open>
  The values read from the environment (\<^verbatim>\<open>var gaToken = process.env.GA_TOKEN\<close>, ...); the
  global \<^verbatim>\<open>channel\<close> is the field \<open>slackChannel\<close>.
\<close>

record config =
  gaToken :: string
  slackUrl :: string
  clientId :: string
  slackChannel :: "string option"
  botName :: string

text \<open>How the start of the process ends: \<^verbatim>\<open>exitWithError\<close> writes its message to the console
  and exits with the given status, or the checks pass and the server goes on to listen.\<close>

datatype boot =
    Exit string nat
  | Listen config

text \<open>\<^verbatim>\<open>!v\<close> for a variable of the environment: it is unset, or set to the empty string.\<close>

definition unset :: "string option \<Rightarrow> bool" where
  "unset v = (case v of None \<Rightarrow> True | Some x \<Rightarrow> x = [])"

definition or_default :: "string option \<Rightarrow> string \<Rightarrow> string" where
  "or_default v d = (case v of None \<Rightarrow> d | Some x \<Rightarrow> (if x = [] then d else x))"

definition startup :: "(string \<Rightarrow> string option) \<Rightarrow> boot" where
  "startup env =
     (if unset (env ''GA_TOKEN'') then Exit ''Please set GA_TOKEN environment variable.'' 1
      else if unset (env ''SLACK_WEBHOOK_URL'')
        then Exit ''Please set SLACK_WEBHOOK_URL environment variable.'' 1
      else if unset (env ''GOOGLE_CLIENTID'')
        then Exit ''Please set GOOGLE_CLIENTID environment variable.'' 1
      else Listen \<lparr>gaToken = or_default (env ''GA_TOKEN'') [],
                   slackUrl = or_default (env ''SLACK_WEBHOOK_URL'') [],
                   clientId = or_default (env ''GOOGLE_CLIENTID'') [],
                   slackChannel = env ''SLACK_CHANNEL'',
                   botName = or_default (env ''SLACK_BOT_NAME'') ''SIR''\<rparr>)"

section \<open>Errors and the route guard\<close>

text \<open>
  \<^verbatim>\<open>
  app.use(function(err, req, res, next) {
    console.error(err.stack);
    res.status(500).send('Internal Server Error');
  });
  \<close>
  Express hands an error thrown by a route handler to this middleware.
\<close>

definition catch_all :: "js_error \<Rightarrow> action list" where
  "catch_all err = [ConsoleError (Stack err), Respond (Send 500 ''Internal Server Error'')]"

definition express :: "js_error + action list \<Rightarrow> action list" where
  "express r = (case r of Inl err \<Rightarrow> catch_all err | Inr acts \<Rightarrow> acts)"

text \<open>
  Modelled from the spec: \<^verbatim>\<open>lib/validate\<close> is not among the sources. The Session Gate looks
  up \<^verbatim>\<open>session.user\<close> and returns the stored identity or nothing; the guard, when the gate
  returns nothing, responds with a redirect to the sign-in page and short-circuits, and
  otherwise passes control through unchanged. \<open>Some r\<close> is the guard's own response, \<open>None\<close>
  is \<^verbatim>\<open>next()\<close>.
\<close>

definition validate :: "request \<Rightarrow> response option" where
  "validate req = (case user (sess req) of None \<Rightarrow> Some (Redirect ''/signin'') | Some u \<Rightarrow> None)"

section \<open>The pages\<close>

text \<open>\<^verbatim>\<open>res.render(view, _.assign({}, ctx, u))\<close>\<close>

definition render_with :: "string \<Rightarrow> json \<Rightarrow> json \<Rightarrow> action list" where
  "render_with view ctx u = [Respond (Render view (JObj (js_assign (js_assign [] ctx) u)))]"

text \<open>\<^verbatim>\<open>GET /\<close>, \<^verbatim>\<open>GET /tos\<close>, \<^verbatim>\<open>GET /signin\<close> and the handler of \<^verbatim>\<open>GET /thanks\<close>; the first
  argument is the global \<^verbatim>\<open>strings\<close> as the start of the process has left it (loaded from
  \<^verbatim>\<open>strings.yml\<close>, with \<^verbatim>\<open>main\<close>, \<^verbatim>\<open>signin\<close> and \<^verbatim>\<open>apply\<close> replaced by copies that carry the
  title and the tokens). These handlers only read it.\<close>

definition get_root :: "json \<Rightarrow> request \<Rightarrow> js_error + action list" where
  "get_root strs req =
     js_then (js_get strs ''main'') (\<lambda>m. Inr (render_with ''main'' m (session_user (sess req))))"

definition get_tos :: "json \<Rightarrow> request \<Rightarrow> js_error + action list" where
  "get_tos strs req =
     js_then (js_get strs ''tos'') (\<lambda>t. Inr (render_with ''tos'' t (session_user (sess req))))"

definition get_signin :: "json \<Rightarrow> request \<Rightarrow> js_error + action list" where
  "get_signin strs req =
     (if truthy (session_user (sess req)) then Inr [Respond (Redirect ''/apply'')]
      else js_then (js_get strs ''signin'') (\<lambda>t. Inr [Respond (Render ''signin'' t)]))"

definition get_thanks :: "json \<Rightarrow> request \<Rightarrow> js_error + action list" where
  "get_thanks strs req =
     js_then (js_get strs ''main'') (\<lambda>m. Inr (render_with ''thanks'' m (session_user (sess req))))"

text \<open>
  The handler of \<^verbatim>\<open>GET /apply\<close>:
  \<^verbatim>\<open>
  var user = dotty.get(req, 'session.user');
  strings.apply.form.fullName.value = user.displayName;
  strings.apply.form.email.value = user.emails[0].value;
  res.render('apply', _.assign({}, strings.apply, user));
  \<close>
  It assigns into the global \<^verbatim>\<open>strings\<close>, so it returns the global as it leaves it, also
  when the second statement throws after the first has assigned.
\<close>

definition first_email :: "json \<Rightarrow> js_error + json" where
  "first_email u =
     js_then (js_get u ''emails'') (\<lambda>ems.
     js_then (js_index0 ems) (\<lambda>e0. js_get e0 ''value''))"

definition get_apply :: "json \<Rightarrow> request \<Rightarrow> json \<times> (js_error + action list)" where
  "get_apply strs req =
     (let u = session_user (sess req) in
      case js_then (js_get u ''displayName'')
             (\<lambda>dn. js_update [''apply'', ''form'', ''fullName'', ''value''] dn strs) of
        Inl e \<Rightarrow> (strs, Inl e)
      | Inr strs1 \<Rightarrow>
         (case js_then (first_email u)
                 (\<lambda>ev. js_update [''apply'', ''form'', ''email'', ''value''] ev strs1) of
            Inl e \<Rightarrow> (strs1, Inl e)
          | Inr strs2 \<Rightarrow>
              (strs2, js_then (js_get strs2 ''apply'') (\<lambda>a. Inr (render_with ''apply'' a u)))))"

text \<open>The routes \<^verbatim>\<open>app.get('/thanks', validate(), ...)\<close> and
  \<^verbatim>\<open>app.get('/apply', validate(), ...)\<close>: the guard first, then the handler, whose errors go to
  the catch-all middleware. Both return the global \<^verbatim>\<open>strings\<close> as the request leaves it.\<close>

definition route_thanks :: "json \<Rightarrow> request \<Rightarrow> json \<times> action list" where
  "route_thanks strs req =
     (case validate req of
        Some r \<Rightarrow> (strs, [Respond r])
      | None \<Rightarrow> (strs, express (get_thanks strs req)))"

definition route_apply :: "json \<Rightarrow> request \<Rightarrow> json \<times> action list" where
  "route_apply strs req =
     (case validate req of
        Some r \<Rightarrow> (strs, [Respond r])
      | None \<Rightarrow> (fst (get_apply strs req), express (snd (get_apply strs req))))"

section \<open>POST /apply\<close>

text \<open>\<^verbatim>\<open>req.originUri = req.protocol + '://' + req.get('host')\<close>\<close>

definition originUri :: "request \<Rightarrow> string" where
  "originUri req =
     protocol req @ ''://'' @ (case host req of None \<Rightarrow> ''undefined'' | Some h \<Rightarrow> h)"

text \<open>
  The loop over \<^verbatim>\<open>req.files\<close>; \<open>dirname\<close> is \<^verbatim>\<open>__dirname\<close>.
  \<^verbatim>\<open>
  for (var field in files) {
    var fileObj = files[field];
    var tmpPath = fileObj.path;
    var filename = field + '-' + fileObj.name;
    var dest = __dirname + '/public/images/' + filename;
    _.assign(fileObj, { dest: dest, uri: req.originUri + '/images/' + filename });
    renameJobs.push(async.apply(mv, tmpPath, dest));
  }
  \<close>
\<close>

definition relocate_one :: "string \<Rightarrow> string \<Rightarrow> string \<Rightarrow> upload \<Rightarrow> relocated" where
  "relocate_one dirname origin field fileObj =
     (let filename = field @ ''-'' @ name fileObj in
      \<lparr>fieldname = fieldname fileObj, originalname = originalname fileObj,
       name = name fileObj, path = path fileObj,
       dest = dirname @ ''/public/images/'' @ filename,
       uri = origin @ ''/images/'' @ filename\<rparr>)"

definition relocate :: "string \<Rightarrow> request \<Rightarrow> (string \<times> relocated) list" where
  "relocate dirname req =
     map (\<lambda>(field, fileObj). (field, relocate_one dirname (originUri req) field fileObj)) (files req)"

definition renameJobs :: "(string \<times> relocated) list \<Rightarrow> (string \<times> string) list" where
  "renameJobs fs = map (\<lambda>(field, fileObj). (path fileObj, dest fileObj)) fs"

text \<open>
  The attachment fields of the message: the pairs of the body without \<^verbatim>\<open>comments\<close>, each
  turned into \<^verbatim>\<open>{title: changeCase.title(key), value: value, short: true}\<close>, then one field
  for each file.
\<close>

definition body_fields :: "(string \<times> json) list \<Rightarrow> slack_field list" where
  "body_fields b =
     map (\<lambda>(k, v). \<lparr>title = changeCase_title k, value = v, short = True\<rparr>)
       (AList.delete ''comments'' b)"

definition file_fields :: "(string \<times> relocated) list \<Rightarrow> slack_field list" where
  "file_fields fs =
     map (\<lambda>(field, file).
            \<lparr>title = fieldname file, value = JStr (''<'' @ uri file @ ''|View>''), short = True\<rparr>) fs"

text \<open>The argument of the call \<^verbatim>\<open>slack({...})\<close>; \<open>u\<close> is the identity of the session and
  \<open>fs\<close> the files after the loop above.\<close>

definition notification ::
  "config \<Rightarrow> request \<Rightarrow> json \<Rightarrow> (string \<times> relocated) list \<Rightarrow> js_error + message" where
  \<open>notification cfg req u fs =
     js_then (js_get u ''displayName'') (\<lambda>dn.
     js_then (js_get u ''url'') (\<lambda>link.
     js_then (js_get (JObj (body req)) ''comments'') (\<lambda>comments.
       Inr \<lparr>channel = slackChannel cfg,
            username = botName cfg,
            icon_url = originUri req @ ''images/bot.png'',
            attachments =
              [\<lparr>fallback = js_to_string dn @ '' wants to join Slack'',
                author_name = dn,
                author_link = link,
                author_icon = dotty_get u [''image'', ''url''],
                color = ''#28f428'',
                pretext = ''New invite request:'',
                text = (if truthy comments
                        then JStr (''"'' @ js_to_string comments @ ''"'')
                        else JUndefined),
                fields' = body_fields (body req) @ file_fields fs\<rparr>]\<rparr>)))\<close>

text \<open>
  Modelled from the spec: \<^verbatim>\<open>lib/slack\<close> is not among the sources. The Notifier sends the
  message to the preconfigured endpoint; if delivery fails, the failure is only logged and
  nothing is retried. \<open>delivered\<close> is the outcome of the delivery.
\<close>

definition slack :: "message \<Rightarrow> bool \<Rightarrow> action list" where
  "slack m delivered = Slack m # (if delivered then [] else [ConsoleError DeliveryError])"

text \<open>
  The callback given to \<^verbatim>\<open>async.parallel\<close>; \<open>err\<close> is \<open>Some i\<close> when move \<open>i\<close> reported the
  error.
  \<^verbatim>\<open>
  function (err) {
    if (err) { console.error(err); return void res.sendStatus(500); }
    res.redirect('/thanks');
    slack({...});
  }
  \<close>
\<close>

definition callback ::
  "config \<Rightarrow> request \<Rightarrow> json \<Rightarrow> (string \<times> relocated) list \<Rightarrow> bool \<Rightarrow> nat option \<Rightarrow> action list" where
  "callback cfg req u fs delivered err =
     (case err of
        Some i \<Rightarrow> [ConsoleError (MoveError i), Respond (SendStatus 500)]
      | None \<Rightarrow>
          Respond (Redirect ''/thanks'') #
          (case notification cfg req u fs of
             Inl e \<Rightarrow> [Uncaught e]
           | Inr m \<Rightarrow> slack m delivered))"

text \<open>
  \<^verbatim>\<open>async.parallel(tasks, cb)\<close> of the \<^verbatim>\<open>async\<close> package starts every task at once. The
  reports of the tasks arrive later, in any order: \<open>(i, err)\<close> is the report of task \<open>i\<close>,
  with \<open>err\<close> when it failed. The first report of an error calls \<open>cb\<close> with it at once, and
  \<open>cb\<close> is not called again; a report of success counts, and the one that brings the count
  to the number of tasks calls \<open>cb\<close> without error. \<open>n\<close> is the number of tasks,
  \<open>completed\<close> the count, \<open>called\<close> whether \<open>cb\<close> has been called.
\<close>

fun parallel_run ::
  "nat \<Rightarrow> (nat option \<Rightarrow> action list) \<Rightarrow> nat \<Rightarrow> bool \<Rightarrow> (nat \<times> bool) list \<Rightarrow> action list" where
  "parallel_run n cb completed called [] = []"
| "parallel_run n cb completed called ((i, err) # reports) =
     MvReport i err #
     (if err
      then (if called then [] else cb (Some i)) @ parallel_run n cb completed True reports
      else (if called then []
            else if n \<le> Suc completed then cb None else []) @
           parallel_run n cb (Suc completed) (called \<or> n \<le> Suc completed) reports)"

text \<open>With no task, \<open>cb\<close> is called at once without error.\<close>

definition async_parallel ::
  "(string \<times> string) list \<Rightarrow> (nat \<times> bool) list \<Rightarrow> (nat option \<Rightarrow> action list) \<Rightarrow> action list" where
  "async_parallel jobs reports cb =
     (if jobs = [] then cb None
      else map (\<lambda>(src, dst). MvStart src dst) jobs @ parallel_run (length jobs) cb 0 False reports)"

text \<open>
  The handler of \<^verbatim>\<open>POST /apply\<close>. The arguments of the first \<^verbatim>\<open>console.log\<close> are evaluated
  before anything else happens, so an error there is thrown before any file is touched.
  \<open>reports\<close> and \<open>delivered\<close> are what the file system and the chat service answer.
\<close>

definition post_apply ::
  "config \<Rightarrow> string \<Rightarrow> request \<Rightarrow> (nat \<times> bool) list \<Rightarrow> bool \<Rightarrow> js_error + action list" where
  \<open>post_apply cfg dirname req reports delivered =
     (let u = session_user (sess req) in
      js_then (js_get u ''displayName'') (\<lambda>dn.
      js_then (first_email u) (\<lambda>ev.
        let fs = relocate dirname req in
        Inr (ConsoleLog (Format ''Received application from "%s <%s>"'' [dn, ev]) #
             async_parallel (renameJobs fs) reports (callback cfg req u fs delivered)))))\<close>

section \<open>Observations on a run\<close>

text \<open>The responses sent to the client, the calls of the chat webhook and the reports of
  the moves, each in the order of the run.\<close>

fun responses :: "action list \<Rightarrow> response list" where
  "responses [] = []"
| "responses (Respond r # acts) = r # responses acts"
| "responses (a # acts) = responses acts"

fun slack_calls :: "action list \<Rightarrow> message list" where
  "slack_calls [] = []"
| "slack_calls (Slack m # acts) = m # slack_calls acts"
| "slack_calls (a # acts) = slack_calls acts"

fun move_reports :: "action list \<Rightarrow> (nat \<times> bool) list" where
  "move_reports [] = []"
| "move_reports (MvReport i err # acts) = (i, err) # move_reports acts"
| "move_reports (a # acts) = move_reports acts"

text \<open>What happens after the first response has been sent.\<close>

fun after_response :: "action list \<Rightarrow> action list" where
  "after_response [] = []"
| "after_response (Respond r # acts) = acts"
| "after_response (a # acts) = after_response acts"

text \<open>What the client of a route handler sees: the responses, with an error thrown by the
  handler answered by the catch-all middleware.\<close>

definition responses_of :: "js_error + action list \<Rightarrow> response list" where
  "responses_of r = responses (express r)"

section \<open>Sample inputs\<close>

definition ex_alice :: json where
  "ex_alice =
     JObj [(''kind'', JStr ''plus#person''), (''displayName'', JStr ''Alice''),
           (''emails'', JArr [JObj [(''value'', JStr ''a@x.com'')]]),
           (''url'', JStr ''http://plus/alice'')]"

definition ex_bob :: json where
  "ex_bob =
     JObj [(''kind'', JStr ''plus#person''), (''displayName'', JStr ''Bob''),
           (''emails'', JArr [])]"

definition ex_signin :: "json \<Rightarrow> request" where
  "ex_signin u =
     \<lparr>protocol = ''http'', host = Some ''example.com'', sess = \<lparr>user = None\<rparr>,
      body = [(''user'', u)], files = []\<rparr>"

definition ex_request :: "json option \<Rightarrow> request" where
  "ex_request u =
     \<lparr>protocol = ''http'', host = Some ''example.com'', sess = \<lparr>user = u\<rparr>,
      body = [(''fullName'', JStr ''Jane Doe''), (''comments'', JStr ''hi''),
              (''email'', JStr ''jane@x.com'')],
      files = [(''resume'',
                \<lparr>fieldname = ''resume'', originalname = ''Jane Doe.pdf'', name = ''cv.pdf'',
                 path = ''/tmp/abc''\<rparr>),
               (''photo'',
                \<lparr>fieldname = ''photo'', originalname = ''portrait.png'', name = ''me.png'',
                 path = ''/tmp/def''\<rparr>)]\<rparr>"

definition ex_config :: config where
  "ex_config =
     \<lparr>gaToken = ''UA-1'', slackUrl = ''https://hooks.example/T'', clientId = ''cid'',
      slackChannel = None, botName = ''SIR''\<rparr>"

definition ex_strings :: json where
  "ex_strings =
     JObj [(''title'', JStr ''Join''),
           (''main'', JObj [(''title'', JStr ''Join'')]),
           (''apply'',
            JObj [(''title'', JStr ''Join''),
                  (''form'',
                   JObj [(''fullName'', JObj [(''label'', JStr ''Name'')]),
                         (''email'', JObj [(''label'', JStr ''Email'')])])])]"

definition ex_env :: "string \<Rightarrow> string option" where
  "ex_env =
     map_of [(''GA_TOKEN'', ''UA-1''), (''SLACK_WEBHOOK_URL'', ''https://hooks.example/T''),
             (''GOOGLE_CLIENTID'', ''cid'')]"

text \<open>A run of \<^verbatim>\<open>POST /apply\<close> with two files, in which the first move fails and the
  second succeeds after it.\<close>

definition ex_failed_run :: "action list" where
  \<open>ex_failed_run =
     [ConsoleLog (Format ''Received application from "%s <%s>"'' [JStr ''Alice'', JStr ''a@x.com'']),
      MvStart ''/tmp/abc'' ''/srv/public/images/resume-cv.pdf'',
      MvStart ''/tmp/def'' ''/srv/public/images/photo-me.png'',
      MvReport 0 True, ConsoleError (MoveError 0), Respond (SendStatus 500),
      MvReport 1 False]\<close>

text \<open>The global \<^verbatim>\<open>strings\<close> after Alice has opened the form, and after Bob, whose identity
  has no e-mail address, has tried to open it next.\<close>

definition ex_strings_alice :: json where
  "ex_strings_alice =
     JObj [(''title'', JStr ''Join''),
           (''main'', JObj [(''title'', JStr ''Join'')]),
           (''apply'',
            JObj [(''title'', JStr ''Join''),
                  (''form'',
                   JObj [(''fullName'', JObj [(''label'', JStr ''Name''), (''value'', JStr ''Alice'')]),
                         (''email'',
                          JObj [(''label'', JStr ''Email''), (''value'', JStr ''a@x.com'')])])])]"

definition ex_strings_bob :: json where
  "ex_strings_bob =
     JObj [(''title'', JStr ''Join''),
           (''main'', JObj [(''title'', JStr ''Join'')]),
           (''apply'',
            JObj [(''title'', JStr ''Join''),
                  (''form'',
                   JObj [(''fullName'', JObj [(''label'', JStr ''Name''), (''value'', JStr ''Bob'')]),
                         (''email'',
                          JObj [(''label'', JStr ''Email''), (''value'', JStr ''a@x.com'')])])])]"




text \<open>The file \<^verbatim>\<open>cv.pdf\<close> uploaded twice in the field \<^verbatim>\<open>resume\<close>: \<^verbatim>\<open>multer\<close> stores each
  upload under a name of its own.\<close>

definition ex_first_upload :: upload where
  "ex_first_upload =
     \<lparr>fieldname = ''resume'', originalname = ''cv.pdf'',
      name = ''5f2a9c0d41b7e3a86c1d0e9b7a4f3c21.pdf'',
      path = ''/tmp/5f2a9c0d41b7e3a86c1d0e9b7a4f3c21.pdf''\<rparr>"

definition ex_second_upload :: upload where
  "ex_second_upload =
     \<lparr>fieldname = ''resume'', originalname = ''cv.pdf'',
      name = ''c81e728d9d4c2f636f067f89cc14862c.pdf'',
      path = ''/tmp/c81e728d9d4c2f636f067f89cc14862c.pdf''\<rparr>"

section \<open>Auxiliary facts\<close>

lemma dotty_get_user:
  "dotty_get (JObj b) [''user''] = (case map_of b ''user'' of None \<Rightarrow> JUndefined | Some v \<Rightarrow> v)"
  by simp

lemma kind_person:
  "(truthy u \<and> js_get u ''kind'' = Inr (JStr ''plus#person'')) =
   (\<exists>ps. u = JObj ps \<and> map_of ps ''kind'' = Some (JStr ''plus#person''))"
  by (cases u) (auto split: option.splits)

lemma js_get_total: "js_get u k = Inr x \<Longrightarrow> \<exists>y. js_get u k' = Inr y"
  by (cases u) auto

lemma responses_append: "responses (xs @ ys) = responses xs @ responses ys"
  by (induction xs rule: responses.induct) auto

lemma slack_calls_append: "slack_calls (xs @ ys) = slack_calls xs @ slack_calls ys"
  by (induction xs rule: slack_calls.induct) auto

lemma move_reports_append: "move_reports (xs @ ys) = move_reports xs @ move_reports ys"
  by (induction xs rule: move_reports.induct) auto

lemma responses_starts: "responses (map (\<lambda>(s, d). MvStart s d) js) = []"
  by (induction js) auto

lemma responses_reports: "responses (map (\<lambda>(i, err). MvReport i err) rs) = []"
  by (induction rs) auto

lemma slack_calls_starts: "slack_calls (map (\<lambda>(s, d). MvStart s d) js) = []"
  by (induction js) auto

lemma slack_calls_reports: "slack_calls (map (\<lambda>(i, err). MvReport i err) rs) = []"
  by (induction rs) auto

lemma move_reports_starts: "move_reports (map (\<lambda>(s, d). MvStart s d) js) = []"
  by (induction js) auto

lemma move_reports_reports: "move_reports (map (\<lambda>(i, err). MvReport i err) rs) = rs"
  by (induction rs) auto

lemma after_response_starts:
  "after_response (map (\<lambda>(s, d). MvStart s d) js @ acts) = after_response acts"
  by (induction js) auto

lemma after_response_reports:
  "after_response (map (\<lambda>(i, err). MvReport i err) rs @ acts) = after_response acts"
  by (induction rs) auto

text \<open>Once the callback has been called, the remaining reports only arrive.\<close>

lemma parallel_run_called:
  "parallel_run n cb c True rs = map (\<lambda>(i, err). MvReport i err) rs"
  by (induction rs arbitrary: c) auto

text \<open>The first report of an error calls the callback, whatever is still running.\<close>

lemma parallel_run_failure:
  "list_all (\<lambda>r. \<not> snd r) pre \<Longrightarrow> c + length pre < n \<Longrightarrow>
   parallel_run n cb c False (pre @ (i, True) # post) =
     map (\<lambda>(i, err). MvReport i err) pre @ MvReport i True # cb (Some i) @
     map (\<lambda>(i, err). MvReport i err) post"
proof (induction pre arbitrary: c)
  case Nil
  then show ?case by (simp add: parallel_run_called)
next
  case (Cons r pre)
  obtain j e where r: "r = (j, e)" by (cases r)
  from Cons.prems have e: "\<not> e" and rest: "list_all (\<lambda>r. \<not> snd r) pre"
    and lt: "Suc c + length pre < n"
    by (simp_all add: r)
  from lt have nle: "\<not> n \<le> Suc c" by simp
  show ?case using Cons.IH [OF rest lt] e nle by (simp add: r)
qed

text \<open>When every move succeeds, the callback is called by the last report.\<close>

lemma parallel_run_success:
  "list_all (\<lambda>r. \<not> snd r) rs \<Longrightarrow> c + length rs = n \<Longrightarrow> rs \<noteq> [] \<Longrightarrow>
   parallel_run n cb c False rs = map (\<lambda>(i, err). MvReport i err) rs @ cb None"
proof (induction rs arbitrary: c)
  case Nil
  then show ?case by simp
next
  case (Cons r rs)
  obtain j e where r: "r = (j, e)" by (cases r)
  from Cons.prems have e: "\<not> e" and rest: "list_all (\<lambda>r. \<not> snd r) rs"
    and len: "Suc c + length rs = n"
    by (simp_all add: r)
  show ?case
  proof (cases "rs = []")
    case True
    with len e show ?thesis by (simp add: r)
  next
    case False
    then have "\<not> n \<le> Suc c" using len by (cases rs) auto
    with Cons.IH [OF rest len False] e show ?thesis by (simp add: r)
  qed
qed

lemma first_failure:
  "\<exists>r\<in>set rs. snd r \<Longrightarrow>
   \<exists>pre i post. rs = pre @ (i, True) # post \<and> list_all (\<lambda>r. \<not> snd r) pre"
proof (induction rs)
  case Nil
  then show ?case by simp
next
  case (Cons r rs)
  show ?case
  proof (cases "snd r")
    case True
    then have "r # rs = [] @ (fst r, True) # rs \<and> list_all (\<lambda>r. \<not> snd r) []"
      by (cases r) simp
    then show ?thesis by blast
  next
    case False
    with Cons.prems have "\<exists>r\<in>set rs. snd r" by auto
    from Cons.IH [OF this] obtain pre i post where
      "rs = pre @ (i, True) # post" "list_all (\<lambda>r. \<not> snd r) pre" by blast
    with False have
      "r # rs = (r # pre) @ (i, True) # post \<and> list_all (\<lambda>r. \<not> snd r) (r # pre)"
      by simp
    then show ?thesis by blast
  qed
qed

lemma sorted_reports_length: "sort (map fst rs) = [0..<n] \<Longrightarrow> length rs = n"
proof -
  assume "sort (map fst rs) = [0..<n]"
  then have "length (sort (map fst rs)) = length [0..<n]" by simp
  then show ?thesis by simp
qed

lemma post_apply_Inr:
  "post_apply cfg dirname req reports delivered = Inr trace \<Longrightarrow>
   \<exists>dn ev. js_get (session_user (sess req)) ''displayName'' = Inr dn
     \<and> first_email (session_user (sess req)) = Inr ev
     \<and> trace = ConsoleLog (Format ''Received application from \"%s <%s>\"'' [dn, ev]) #
         async_parallel (renameJobs (relocate dirname req)) reports
           (callback cfg req (session_user (sess req)) (relocate dirname req) delivered)"
  by (auto simp: post_apply_def Let_def js_then_def split: sum.splits)

lemma notification_Inr:
  assumes "js_get u ''displayName'' = Inr dn"
  shows "\<exists>m. notification cfg req u fs = Inr m"
proof -
  from js_get_total [OF assms] obtain link where "js_get u ''url'' = Inr link" by blast
  with assms show ?thesis by (simp add: notification_def js_then_def)
qed

lemma notification_shape:
  assumes "notification cfg req u fs = Inr m"
  shows "icon_url m = originUri req @ ''images/bot.png''
     \<and> (\<exists>a. attachments m = [a] \<and> fields' a = body_fields (body req) @ file_fields fs)"
  using assms by (auto simp: notification_def js_then_def split: sum.splits)



lemma first_email_missing:
  assumes "map_of ps ''emails'' = None \<or> map_of ps ''emails'' = Some (JArr [])"
  shows "first_email (JObj ps) = Inl TypeError"
  using assms by (auto simp: first_email_def js_then_def)

lemma js_error_only: "(e::js_error) = TypeError"
  by (cases e) simp

lemma lower_not_digit: "is_lower c \<Longrightarrow> \<not> is_digit c"
  by (simp add: is_lower_def is_digit_def)
lemma space_kind [simp]: "\<not> is_upper CHR '' ''" "\<not> is_lower CHR '' ''" "\<not> is_digit CHR '' ''"
  by (simp_all add: is_upper_def is_lower_def is_digit_def)


























section \<open>Sign-in\<close>

text \<open>
  C2. A \<^verbatim>\<open>POST /signin\<close> request that reaches the handler: if the body contains a \<^verbatim>\<open>user\<close>
  object whose \<^verbatim>\<open>kind\<close> is \<^verbatim>\<open>plus#person\<close>, that object is stored as it is in
  \<^verbatim>\<open>session.user\<close> and the response status is 200; in every other case (no \<^verbatim>\<open>user\<close>, a
  \<^verbatim>\<open>user\<close> that is not an object, another \<^verbatim>\<open>kind\<close>) the status is 401 and the session is
  left as it was.
\<close>

theorem post_signin_sound:
  "(map_of (body req) ''user'' = Some (JObj ps) \<and> map_of ps ''kind'' = Some (JStr ''plus#person'')
      \<longrightarrow> fst (post_signin req) = (sess req)\<lparr>user := Some (JObj ps)\<rparr>
        \<and> responses_of (snd (post_signin req)) = [SendStatus 200])
   \<and> ((\<nexists>ps. map_of (body req) ''user'' = Some (JObj ps)
             \<and> map_of ps ''kind'' = Some (JStr ''plus#person''))
      \<longrightarrow> fst (post_signin req) = sess req
        \<and> responses_of (snd (post_signin req)) = [SendStatus 401])"
proof (intro conjI impI)
  assume h: "map_of (body req) ''user'' = Some (JObj ps)
    \<and> map_of ps ''kind'' = Some (JStr ''plus#person'')"
  then have u: "dotty_get (JObj (body req)) [''user''] = JObj ps" by simp
  show "fst (post_signin req) = (sess req)\<lparr>user := Some (JObj ps)\<rparr>"
    using h by (simp add: post_signin_def u Let_def)
  show "responses_of (snd (post_signin req)) = [SendStatus 200]"
    using h by (simp add: post_signin_def u Let_def responses_of_def express_def)
next
  assume n: "\<nexists>ps. map_of (body req) ''user'' = Some (JObj ps)
    \<and> map_of ps ''kind'' = Some (JStr ''plus#person'')"
  have "\<not> (truthy (dotty_get (JObj (body req)) [''user''])
      \<and> js_get (dotty_get (JObj (body req)) [''user'']) ''kind'' = Inr (JStr ''plus#person''))"
    unfolding kind_person dotty_get_user using n by (auto split: option.splits)
  then have p: "post_signin req = (sess req, Inr [Respond (SendStatus 401)])"
    unfolding post_signin_def Let_def by (rule if_not_P)
  show "fst (post_signin req) = sess req" by (simp add: p)
  show "responses_of (snd (post_signin req)) = [SendStatus 401]"
    by (simp add: p responses_of_def express_def)
qed

theorem post_signin_sound_witness:
  "fst (post_signin (ex_signin ex_alice)) = \<lparr>user = Some ex_alice\<rparr>
   \<and> responses_of (snd (post_signin (ex_signin ex_alice))) = [SendStatus 200]
   \<and> fst (post_signin (ex_signin (JStr ''plus#person''))) = \<lparr>user = None\<rparr>
   \<and> responses_of (snd (post_signin (ex_signin (JStr ''plus#person'')))) = [SendStatus 401]"
proof -
  let ?ps = "[(''kind'', JStr ''plus#person''), (''displayName'', JStr ''Alice''),
              (''emails'', JArr [JObj [(''value'', JStr ''a@x.com'')]]),
              (''url'', JStr ''http://plus/alice'')]"
  have a: "map_of (body (ex_signin ex_alice)) ''user'' = Some (JObj ?ps)
     \<and> map_of ?ps ''kind'' = Some (JStr ''plus#person'')"
    by (simp add: ex_signin_def ex_alice_def)
  have b: "\<nexists>ps. map_of (body (ex_signin (JStr ''plus#person''))) ''user'' = Some (JObj ps)
     \<and> map_of ps ''kind'' = Some (JStr ''plus#person'')"
    by (simp add: ex_signin_def)
  from post_signin_sound [of "ex_signin ex_alice" ?ps] a
    post_signin_sound [of "ex_signin (JStr ''plus#person'')"] b
  show ?thesis by (simp add: ex_signin_def ex_alice_def)
qed

section \<open>Submitting the application\<close>

text \<open>
  C4, as the code has it. In a \<^verbatim>\<open>POST /apply\<close> submission that reaches the moves, in which
  every move reports once and at least one reports an error: the client receives the status
  500 and nothing else, so it is never redirected to \<^verbatim>\<open>/thanks\<close>; the chat webhook is not
  called; the 500 is sent at the first report of an error, and the moves that have not
  reported by then report after it. Every move that was started reports; no report is
  followed by anything that undoes a move.
\<close>

theorem move_failure_answers_500:
  assumes run: "post_apply cfg dirname req reports delivered = Inr trace"
      and once: "sort (map fst reports) = [0..<length (files req)]"
      and failed: "\<exists>r\<in>set reports. snd r"
  shows "\<exists>pre i post lg.
           reports = pre @ (i, True) # post \<and> list_all (\<lambda>r. \<not> snd r) pre
         \<and> trace = ConsoleLog lg #
                   map (\<lambda>(src, dst). MvStart src dst) (renameJobs (relocate dirname req)) @
                   map (\<lambda>(i, err). MvReport i err) pre @
                   [MvReport i True, ConsoleError (MoveError i), Respond (SendStatus 500)] @
                   map (\<lambda>(i, err). MvReport i err) post
         \<and> responses trace = [SendStatus 500]
         \<and> slack_calls trace = []
         \<and> move_reports trace = reports
         \<and> after_response trace = map (\<lambda>(i, err). MvReport i err) post"
proof -
  let ?jobs = "renameJobs (relocate dirname req)"
  let ?cb = "callback cfg req (session_user (sess req)) (relocate dirname req) delivered"
  from post_apply_Inr [OF run] obtain lg where
    tr: "trace = ConsoleLog lg # async_parallel ?jobs reports ?cb" by blast
  from first_failure [OF failed] obtain pre i post where
    split: "reports = pre @ (i, True) # post" and good: "list_all (\<lambda>r. \<not> snd r) pre" by blast
  have n: "length ?jobs = length (files req)"
    by (simp add: renameJobs_def relocate_def)
  from sorted_reports_length [OF once] split have lt: "0 + length pre < length ?jobs"
    by (simp add: n)
  then have ne: "?jobs \<noteq> []" by auto
  have par: "async_parallel ?jobs reports ?cb =
      map (\<lambda>(src, dst). MvStart src dst) ?jobs @
      map (\<lambda>(i, err). MvReport i err) pre @
      [MvReport i True, ConsoleError (MoveError i), Respond (SendStatus 500)] @
      map (\<lambda>(i, err). MvReport i err) post"
    using ne parallel_run_failure [OF good lt, of ?cb i post]
    by (simp add: async_parallel_def split callback_def)
  have t: "trace = ConsoleLog lg # map (\<lambda>(src, dst). MvStart src dst) ?jobs @
      map (\<lambda>(i, err). MvReport i err) pre @
      [MvReport i True, ConsoleError (MoveError i), Respond (SendStatus 500)] @
      map (\<lambda>(i, err). MvReport i err) post"
    by (simp add: tr par)
  have r: "responses trace = [SendStatus 500]"
    by (simp add: t responses_append responses_starts responses_reports)
  have s: "slack_calls trace = []"
    by (simp add: t slack_calls_append slack_calls_starts slack_calls_reports)
  have m: "move_reports trace = reports"
    by (simp add: t split move_reports_append move_reports_starts move_reports_reports)
  have a: "after_response trace = map (\<lambda>(i, err). MvReport i err) post"
    by (simp add: t after_response_starts after_response_reports)
  from split good t r s m a show ?thesis by blast
qed

theorem move_failure_answers_500_witness:
  "post_apply ex_config ''/srv'' (ex_request (Some ex_alice)) [(0, True), (1, False)] True
     = Inr ex_failed_run
   \<and> sort (map fst [(0::nat, True), (1, False)]) = [0..<length (files (ex_request (Some ex_alice)))]
   \<and> (\<exists>r\<in>set [(0::nat, True), (1, False)]. snd r)
   \<and> responses ex_failed_run = [SendStatus 500] \<and> slack_calls ex_failed_run = []"
proof -
  have run: "post_apply ex_config ''/srv'' (ex_request (Some ex_alice)) [(0, True), (1, False)] True
     = Inr ex_failed_run"
    by code_simp
  have once: "sort (map fst [(0::nat, True), (1, False)])
     = [0..<length (files (ex_request (Some ex_alice)))]"
    by code_simp
  have failed: "\<exists>r\<in>set [(0::nat, True), (1, False)]. snd r"
    by simp
  from move_failure_answers_500 [OF run once failed] run once failed
  show ?thesis by blast
qed

text \<open>
  C4 as it is stated asks that the response be sent only after all the moves have
  completed. With two files of which the first fails, the 500 is sent while the second move
  is still running: its report comes after the response.
\<close>

theorem response_waits_for_all_moves_counterexample:
  "post_apply ex_config ''/srv'' (ex_request (Some ex_alice)) [(0, True), (1, False)] True
     = Inr ex_failed_run
   \<and> move_reports (after_response ex_failed_run) = [(1, False)]"
  by code_simp

text \<open>
  C6. In a \<^verbatim>\<open>POST /apply\<close> submission in which every move reports once and none reports an
  error, the redirect to \<^verbatim>\<open>/thanks\<close> is the only response and is sent before the chat
  webhook is called, which happens once, after the response. Whether the delivery of the
  message succeeds changes only what is logged after the call: with the other outcome of the
  delivery the client receives the same redirect.
\<close>

theorem redirect_before_notification:
  assumes run: "post_apply cfg dirname req reports delivered = Inr trace"
      and once: "sort (map fst reports) = [0..<length (files req)]"
      and ok: "list_all (\<lambda>r. \<not> snd r) reports"
  shows "\<exists>lg m.
           notification cfg req (session_user (sess req)) (relocate dirname req) = Inr m
         \<and> trace = ConsoleLog lg #
                   map (\<lambda>(src, dst). MvStart src dst) (renameJobs (relocate dirname req)) @
                   map (\<lambda>(i, err). MvReport i err) reports @
                   Respond (Redirect ''/thanks'') # Slack m #
                   (if delivered then [] else [ConsoleError DeliveryError])
         \<and> responses trace = [Redirect ''/thanks'']
         \<and> slack_calls trace = [m]
         \<and> slack_calls (after_response trace) = [m]
         \<and> responses_of (post_apply cfg dirname req reports (\<not> delivered)) = [Redirect ''/thanks'']"
proof -
  let ?u = "session_user (sess req)"
  let ?fs = "relocate dirname req"
  let ?jobs = "renameJobs ?fs"
  let ?S = "map (\<lambda>(src, dst). MvStart src dst) ?jobs"
  let ?R = "map (\<lambda>(i, err). MvReport i err) reports"
  from post_apply_Inr [OF run] obtain dn ev where
    dn: "js_get ?u ''displayName'' = Inr dn" and ev: "first_email ?u = Inr ev" and
    tr: "trace = ConsoleLog (Format ''Received application from \"%s <%s>\"'' [dn, ev]) #
           async_parallel ?jobs reports (callback cfg req ?u ?fs delivered)" by blast
  from notification_Inr [OF dn] obtain m where m: "notification cfg req ?u ?fs = Inr m" by blast
  have n: "length ?jobs = length (files req)"
    by (simp add: renameJobs_def relocate_def)
  from sorted_reports_length [OF once] have len: "0 + length reports = length ?jobs"
    by (simp add: n)
  have par: "async_parallel ?jobs reports (callback cfg req ?u ?fs d) =
      ?S @ ?R @ callback cfg req ?u ?fs d None" for d
  proof (cases "reports = []")
    case True
    with len show ?thesis by (simp add: async_parallel_def)
  next
    case False
    with len have "?jobs \<noteq> []" by auto
    with parallel_run_success [OF ok len False] show ?thesis
      by (simp add: async_parallel_def)
  qed
  have cb: "callback cfg req ?u ?fs d None =
      Respond (Redirect ''/thanks'') # Slack m # (if d then [] else [ConsoleError DeliveryError])"
    for d
    by (simp add: callback_def m slack_def)
  have t: "trace = ConsoleLog (Format ''Received application from \"%s <%s>\"'' [dn, ev]) #
      ?S @ ?R @ Respond (Redirect ''/thanks'') # Slack m #
      (if delivered then [] else [ConsoleError DeliveryError])"
    by (simp add: tr par cb)
  have r: "responses trace = [Redirect ''/thanks'']"
    by (simp add: t responses_append responses_starts responses_reports)
  have s: "slack_calls trace = [m]"
    by (simp add: t slack_calls_append slack_calls_starts slack_calls_reports)
  have a: "slack_calls (after_response trace) = [m]"
    by (simp add: t after_response_starts after_response_reports)
  have other: "post_apply cfg dirname req reports (\<not> delivered) =
      Inr (ConsoleLog (Format ''Received application from \"%s <%s>\"'' [dn, ev]) #
           ?S @ ?R @ callback cfg req ?u ?fs (\<not> delivered) None)"
    by (simp add: post_apply_def Let_def js_then_def dn ev par)
  have o: "responses_of (post_apply cfg dirname req reports (\<not> delivered)) = [Redirect ''/thanks'']"
    by (simp add: other responses_of_def express_def cb responses_append responses_starts
        responses_reports)
  from m t r s a o show ?thesis by blast
qed

theorem redirect_before_notification_witness:
  "sort (map fst [(1::nat, False), (0, False)]) = [0..<length (files (ex_request (Some ex_alice)))]
   \<and> list_all (\<lambda>r. \<not> snd r) [(1::nat, False), (0, False)]
   \<and> responses_of (post_apply ex_config ''/srv'' (ex_request (Some ex_alice))
        [(1, False), (0, False)] False) = [Redirect ''/thanks'']
   \<and> responses_of (post_apply ex_config ''/srv'' (ex_request (Some ex_alice))
        [(1, False), (0, False)] True) = [Redirect ''/thanks'']"
proof -
  let ?run = "\<lambda>d. post_apply ex_config ''/srv'' (ex_request (Some ex_alice)) [(1, False), (0, False)] d"
  have "?run False \<noteq> Inl TypeError" by code_simp
  then obtain trace where run: "?run False = Inr trace"
    by (cases "?run False") (auto intro: js_error.exhaust)
  have once: "sort (map fst [(1::nat, False), (0, False)])
     = [0..<length (files (ex_request (Some ex_alice)))]"
    by code_simp
  have ok: "list_all (\<lambda>r. \<not> snd r) [(1::nat, False), (0, False)]" by simp
  from redirect_before_notification [OF run once ok]
  have "responses trace = [Redirect ''/thanks'']"
    and "responses_of (?run (\<not> False)) = [Redirect ''/thanks'']" by blast+
  with run once ok show ?thesis by (simp add: responses_of_def express_def)
qed




text \<open>
  C5, as the code has it. The relocation computes its paths from the field name and from
  \<^verbatim>\<open>fileObj.name\<close>, the name under which \<^verbatim>\<open>multer\<close> has stored the upload: the destination is
  \<^verbatim>\<open>__dirname + '/public/images/'\<close> followed by the field name, a hyphen and that name, and
  the public address is the origin of the request, \<^verbatim>\<open>/images/\<close> and the same prefixed name.
  Neither the original file name nor the temporary path nor the origin enters the
  destination, and two files of one field have the same destination exactly when their
  stored names are the same.
\<close>

theorem relocation_paths:
  "dest (relocate_one dirname origin field f) = dirname @ ''/public/images/'' @ field @ ''-'' @ name f
   \<and> uri (relocate_one dirname origin field f) = origin @ ''/images/'' @ field @ ''-'' @ name f
   \<and> relocate dirname req =
       map (\<lambda>(field, f).
              (field,
               relocate_one dirname
                 (protocol req @ ''://'' @ (case host req of None \<Rightarrow> ''undefined'' | Some h \<Rightarrow> h))
                 field f))
         (files req)
   \<and> renameJobs (relocate dirname req) =
       map (\<lambda>(field, f). (path f, dirname @ ''/public/images/'' @ field @ ''-'' @ name f))
         (files req)
   \<and> dest (relocate_one dirname origin' field (f\<lparr>originalname := other, path := tmp\<rparr>))
       = dest (relocate_one dirname origin field f)
   \<and> (dest (relocate_one dirname origin' field g) = dest (relocate_one dirname origin field f))
       = (name g = name f)"
proof (intro conjI)
  show "dest (relocate_one dirname origin field f)
      = dirname @ ''/public/images/'' @ field @ ''-'' @ name f"
    by (simp add: relocate_one_def Let_def)
  show "uri (relocate_one dirname origin field f) = origin @ ''/images/'' @ field @ ''-'' @ name f"
    by (simp add: relocate_one_def Let_def)
  show "relocate dirname req =
       map (\<lambda>(field, f).
              (field,
               relocate_one dirname
                 (protocol req @ ''://'' @ (case host req of None \<Rightarrow> ''undefined'' | Some h \<Rightarrow> h))
                 field f))
         (files req)"
    by (simp add: relocate_def originUri_def)
  show "renameJobs (relocate dirname req) =
       map (\<lambda>(field, f). (path f, dirname @ ''/public/images/'' @ field @ ''-'' @ name f))
         (files req)"
    by (simp add: renameJobs_def relocate_def relocate_one_def Let_def split_def)
  show "dest (relocate_one dirname origin' field (f\<lparr>originalname := other, path := tmp\<rparr>))
       = dest (relocate_one dirname origin field f)"
    by (simp add: relocate_one_def Let_def)
  show "(dest (relocate_one dirname origin' field g) = dest (relocate_one dirname origin field f))
       = (name g = name f)"
    by (simp add: relocate_one_def Let_def)
qed

theorem relocation_paths_witness:
  "dest (relocate_one ''/srv'' ''http://example.com'' ''resume'' ex_first_upload)
     = ''/srv/public/images/resume-5f2a9c0d41b7e3a86c1d0e9b7a4f3c21.pdf''
   \<and> uri (relocate_one ''/srv'' ''http://example.com'' ''resume'' ex_first_upload)
     = ''http://example.com/images/resume-5f2a9c0d41b7e3a86c1d0e9b7a4f3c21.pdf''
   \<and> dest (relocate_one ''/srv'' ''https://join.example.org'' ''resume''
        (ex_first_upload\<lparr>originalname := ''resume.pdf'', path := ''/tmp/other''\<rparr>))
     = dest (relocate_one ''/srv'' ''http://example.com'' ''resume'' ex_first_upload)"
  using relocation_paths [where dirname = "''/srv''" and origin = "''http://example.com''"
      and field = "''resume''" and f = ex_first_upload and origin' = "''https://join.example.org''"
      and other = "''resume.pdf''" and tmp = "''/tmp/other''"]
  by (simp add: ex_first_upload_def)

text \<open>
  C5 as it is stated builds the destination from the original file name, so that uploading
  the same file again overwrites it. The file \<^verbatim>\<open>cv.pdf\<close> uploaded twice in the field
  \<^verbatim>\<open>resume\<close> is moved to two different paths, neither of which ends in \<^verbatim>\<open>resume-cv.pdf\<close>.
\<close>

theorem original_filename_path_counterexample:
  "fieldname ex_first_upload = fieldname ex_second_upload
   \<and> originalname ex_first_upload = ''cv.pdf''
   \<and> originalname ex_second_upload = ''cv.pdf''
   \<and> dest (relocate_one ''/srv'' ''http://example.com'' ''resume'' ex_first_upload)
       = ''/srv/public/images/resume-5f2a9c0d41b7e3a86c1d0e9b7a4f3c21.pdf''
   \<and> dest (relocate_one ''/srv'' ''http://example.com'' ''resume'' ex_second_upload)
       = ''/srv/public/images/resume-c81e728d9d4c2f636f067f89cc14862c.pdf''
   \<and> dest (relocate_one ''/srv'' ''http://example.com'' ''resume'' ex_first_upload)
       \<noteq> ''/srv/public/images/resume-cv.pdf''
   \<and> dest (relocate_one ''/srv'' ''http://example.com'' ''resume'' ex_first_upload)
       \<noteq> dest (relocate_one ''/srv'' ''http://example.com'' ''resume'' ex_second_upload)"
  by (simp add: ex_first_upload_def ex_second_upload_def relocate_one_def Let_def)

text \<open>
  C9. The \<^verbatim>\<open>icon_url\<close> of the message is the origin of the request (protocol, \<^verbatim>\<open>://\<close>, host)
  followed at once by \<^verbatim>\<open>images/bot.png\<close>: the character after the host is the \<^verbatim>\<open>i\<close> of
  \<^verbatim>\<open>images\<close>, not a path separator, whereas in the address of a relocated file the origin is
  followed by \<^verbatim>\<open>/images/\<close>.
\<close>

theorem icon_url_without_separator:
  assumes "notification cfg req u fs = Inr m"
  shows "icon_url m = protocol req @ ''://'' @ (case host req of None \<Rightarrow> ''undefined'' | Some h \<Rightarrow> h)
                      @ ''images/bot.png''
       \<and> drop (length (originUri req)) (icon_url m) = ''images/bot.png''
       \<and> icon_url m ! length (originUri req) = CHR ''i''
       \<and> drop (length (originUri req)) (uri (relocate_one dirname (originUri req) field f))
           = ''/images/'' @ field @ ''-'' @ name f
       \<and> uri (relocate_one dirname (originUri req) field f) ! length (originUri req) = CHR ''/''"
proof -
  from notification_shape [OF assms] have i: "icon_url m = originUri req @ ''images/bot.png''"
    by blast
  show ?thesis
    by (simp add: i relocate_one_def Let_def nth_append) (simp add: originUri_def)
qed

theorem icon_url_without_separator_witness:
  "\<exists>m. notification ex_config (ex_request (Some ex_alice)) ex_alice [] = Inr m
     \<and> icon_url m = ''http://example.comimages/bot.png''"
proof -
  let ?req = "ex_request (Some ex_alice)"
  let ?n = "notification ex_config ?req ex_alice []"
  have "?n \<noteq> Inl TypeError" by code_simp
  then obtain m where m: "?n = Inr m"
    by (cases ?n) (auto intro: js_error.exhaust)
  from icon_url_without_separator [OF m]
  have "icon_url m = protocol ?req @ ''://''
      @ (case host ?req of None \<Rightarrow> ''undefined'' | Some h \<Rightarrow> h) @ ''images/bot.png''"
    by blast
  then have "icon_url m = ''http://example.comimages/bot.png''"
    by (simp add: ex_request_def)
  with m show ?thesis by blast
qed

text \<open>
  C10. When the identity of the session is an object without \<^verbatim>\<open>emails\<close>, or with an empty
  \<^verbatim>\<open>emails\<close> array, the handlers of \<^verbatim>\<open>GET /apply\<close> and \<^verbatim>\<open>POST /apply\<close> throw a TypeError,
  whatever the global \<^verbatim>\<open>strings\<close> holds; the catch-all middleware logs the stack and the
  client receives 500 \<^verbatim>\<open>Internal Server Error\<close> instead of the form or the redirect. In
  \<^verbatim>\<open>POST /apply\<close> this happens before any move is started.
\<close>

theorem apply_needs_email:
  assumes u: "user (sess req) = Some (JObj ps)"
      and e: "map_of ps ''emails'' = None \<or> map_of ps ''emails'' = Some (JArr [])"
  shows "snd (get_apply strs req) = Inl TypeError
     \<and> express (snd (get_apply strs req))
         = [ConsoleError (Stack TypeError), Respond (Send 500 ''Internal Server Error'')]
     \<and> post_apply cfg dirname req reports delivered = Inl TypeError
     \<and> express (post_apply cfg dirname req reports delivered)
         = [ConsoleError (Stack TypeError), Respond (Send 500 ''Internal Server Error'')]"
proof -
  have su: "session_user (sess req) = JObj ps" by (simp add: session_user_def u)
  have fe: "first_email (JObj ps) = Inl TypeError" by (rule first_email_missing [OF e])
  have g: "snd (get_apply strs req) = Inl TypeError"
    by (auto simp: get_apply_def su fe js_then_def Let_def js_error_only split: sum.splits)
  have p: "post_apply cfg dirname req reports delivered = Inl TypeError"
    by (simp add: post_apply_def su fe js_then_def Let_def split: sum.splits)
  show ?thesis by (simp add: g p express_def catch_all_def)
qed

theorem apply_needs_email_witness:
  "user (sess (ex_request (Some ex_bob))) = Some ex_bob
   \<and> express (snd (get_apply ex_strings (ex_request (Some ex_bob))))
         = [ConsoleError (Stack TypeError), Respond (Send 500 ''Internal Server Error'')]
   \<and> express (post_apply ex_config ''/srv'' (ex_request (Some ex_bob)) [] True)
         = [ConsoleError (Stack TypeError), Respond (Send 500 ''Internal Server Error'')]"
proof -
  let ?ps = "[(''kind'', JStr ''plus#person''), (''displayName'', JStr ''Bob''),
              (''emails'', JArr [])]"
  have u: "user (sess (ex_request (Some ex_bob))) = Some (JObj ?ps)"
    by (simp add: ex_request_def ex_bob_def)
  have e: "map_of ?ps ''emails'' = None \<or> map_of ?ps ''emails'' = Some (JArr [])" by simp
  from apply_needs_email [OF u e, of ex_strings ex_config "''/srv''" "[]" True] u
  show ?thesis unfolding ex_bob_def by blast
qed

section \<open>The guarded pages\<close>

text \<open>
  C3. A \<^verbatim>\<open>GET /thanks\<close> or \<^verbatim>\<open>GET /apply\<close> request whose session holds no identity is
  answered by the guard alone, with its redirect: nothing is rendered and the global
  \<^verbatim>\<open>strings\<close> is not touched, so the protected handler has not run. With an identity in the
  session the request is answered by the handler, as if there were no guard.
\<close>

theorem guard_short_circuits:
  "(user (sess req) = None \<longrightarrow>
      route_thanks strs req = (strs, [Respond (Redirect ''/signin'')])
    \<and> route_apply strs req = (strs, [Respond (Redirect ''/signin'')]))
   \<and> (user (sess req) = Some u \<longrightarrow>
      route_thanks strs req = (strs, express (get_thanks strs req))
    \<and> route_apply strs req = (fst (get_apply strs req), express (snd (get_apply strs req))))"
  by (simp add: route_thanks_def route_apply_def validate_def)

theorem guard_short_circuits_witness:
  "route_thanks ex_strings (ex_request None) = (ex_strings, [Respond (Redirect ''/signin'')])
   \<and> route_apply ex_strings (ex_request None) = (ex_strings, [Respond (Redirect ''/signin'')])
   \<and> route_thanks ex_strings (ex_request (Some ex_alice))
       = (ex_strings, express (get_thanks ex_strings (ex_request (Some ex_alice))))
   \<and> responses (snd (route_thanks ex_strings (ex_request (Some ex_alice))))
       = [Render ''thanks'' (JObj ((''title'', JStr ''Join'') # own_props ex_alice))]"
proof -
  have r: "responses (express (get_thanks ex_strings (ex_request (Some ex_alice))))
       = [Render ''thanks'' (JObj ((''title'', JStr ''Join'') # own_props ex_alice))]"
    by code_simp
  from guard_short_circuits [of "ex_request None" ex_strings]
    guard_short_circuits [of "ex_request (Some ex_alice)" ex_strings ex_alice] r
  show ?thesis by (simp add: ex_request_def)
qed

text \<open>
  C8. No handler should change state that requests share, the session store and the
  counters of the rate limiter apart. The handler of \<^verbatim>\<open>GET /apply\<close> does: after Alice's
  request the global \<^verbatim>\<open>strings\<close> holds her name and e-mail address, and the next request, by
  Bob, starts from that structure and leaves his name beside her address.
\<close>

theorem get_apply_writes_strings:
  "fst (get_apply ex_strings (ex_request (Some ex_alice))) = ex_strings_alice
   \<and> ex_strings_alice \<noteq> ex_strings
   \<and> fst (get_apply ex_strings_alice (ex_request (Some ex_bob))) = ex_strings_bob"
  by code_simp

section \<open>Starting the server\<close>

text \<open>
  C7, as the code has it. If \<^verbatim>\<open>GA_TOKEN\<close>, \<^verbatim>\<open>SLACK_WEBHOOK_URL\<close> or \<^verbatim>\<open>GOOGLE_CLIENTID\<close> is
  absent or empty, the process writes a message and exits with status 1 instead of
  listening. When the three are set the server starts, whatever \<^verbatim>\<open>SLACK_CHANNEL\<close> is: the
  channel of the messages is the variable as found, absent or not.
\<close>

theorem startup_checks:
  "(unset (env ''GA_TOKEN'') \<or> unset (env ''SLACK_WEBHOOK_URL'') \<or> unset (env ''GOOGLE_CLIENTID'')
      \<longrightarrow> (\<exists>msg. startup env = Exit msg 1))
   \<and> (\<not> (unset (env ''GA_TOKEN'') \<or> unset (env ''SLACK_WEBHOOK_URL'')
           \<or> unset (env ''GOOGLE_CLIENTID''))
      \<longrightarrow> (\<exists>cfg. startup env = Listen cfg \<and> slackChannel cfg = env ''SLACK_CHANNEL''))"
  by (simp add: startup_def)

theorem startup_checks_witness:
  "unset (Map.empty ''GA_TOKEN'') \<and> (\<exists>msg. startup Map.empty = Exit msg 1)
   \<and> \<not> (unset (ex_env ''GA_TOKEN'') \<or> unset (ex_env ''SLACK_WEBHOOK_URL'')
           \<or> unset (ex_env ''GOOGLE_CLIENTID''))
   \<and> (\<exists>cfg. startup ex_env = Listen cfg \<and> slackChannel cfg = ex_env ''SLACK_CHANNEL'')"
proof -
  have a: "unset (Map.empty ''GA_TOKEN'')" by (simp add: unset_def)
  have b: "\<not> (unset (ex_env ''GA_TOKEN'') \<or> unset (ex_env ''SLACK_WEBHOOK_URL'')
           \<or> unset (ex_env ''GOOGLE_CLIENTID''))"
    by (simp add: unset_def ex_env_def)
  from startup_checks [of Map.empty] startup_checks [of ex_env] a b show ?thesis by blast
qed

text \<open>
  C7 as it is stated counts the channel name among the values without which the process
  exits. With the three checked variables set and \<^verbatim>\<open>SLACK_CHANNEL\<close> absent, the server
  starts.
\<close>

theorem channel_required_counterexample:
  "ex_env ''SLACK_CHANNEL'' = None
   \<and> startup ex_env =
       Listen \<lparr>gaToken = ''UA-1'', slackUrl = ''https://hooks.example/T'', clientId = ''cid'',
               slackChannel = None, botName = ''SIR''\<rparr>"
  by (simp add: ex_env_def startup_def unset_def or_default_def)

end
